theory Spec2Isabelle
  imports Complex_Main "HOL-Library.Multiset" "HOL-Library.Sublist"
begin

section \<open>Helper utilities of \<^verbatim>\<open>curator_agent.py\<close>\<close>

subsection \<open>The tokenizer\<close>

text \<open>
  Python strings are modelled as \<^typ>\<open>string\<close>, a \<^typ>\<open>char\<close> standing for a code point
  below 256; \<^verbatim>\<open>None\<close> is \<^term>\<open>None\<close>, so \<^verbatim>\<open>(text or "")\<close> is a case on the option.
  \<^verbatim>\<open>str.lower\<close> is modelled on the ASCII letters; the other code points below 256 do not
  belong to the class \<^verbatim>\<open>[a-z0-9]\<close>, before or after lowering.
\<close>

definition or_empty :: "string option \<Rightarrow> string" where
  "or_empty t = (case t of None \<Rightarrow> [] | Some s \<Rightarrow> s)"

definition lower_char :: "char \<Rightarrow> char" where
  "lower_char c =
     (case map_of (zip ''ABCDEFGHIJKLMNOPQRSTUVWXYZ'' ''abcdefghijklmnopqrstuvwxyz'') c of
        Some l \<Rightarrow> l
      | None \<Rightarrow> c)"

definition lower :: "string \<Rightarrow> string" where
  "lower s = map lower_char s"

text \<open>The character class \<^verbatim>\<open>[a-z0-9]\<close>.\<close>

definition alnum_lower :: "char \<Rightarrow> bool" where
  "alnum_lower c = (c \<in> set ''abcdefghijklmnopqrstuvwxyz0123456789'')"

text \<open>
  \<^verbatim>\<open>re.findall(r"[a-z0-9]{4,}", text)\<close>: the quantifier is greedy, so a match started
  inside a run of class characters takes the run to its end; a run shorter than four
  characters gives no match from any of its positions.  \<open>findall\<close> scans left to right,
  \<open>cur\<close> being the run read so far.
\<close>

definition emit :: "string \<Rightarrow> string list" where
  "emit cur = (if 4 \<le> length cur then [cur] else [])"

fun findall :: "string \<Rightarrow> string \<Rightarrow> string list" where
  "findall cur [] = emit cur"
| "findall cur (c # cs) =
     (if alnum_lower c then findall (cur @ [c]) cs else emit cur @ findall [] cs)"

definition tokenize :: "string option \<Rightarrow> string list" where
  "tokenize text = findall [] (lower (or_empty text))"

subsection \<open>Extraction of the JSON span\<close>

text \<open>
  \<open>is_space\<close> is the whitespace that \<^verbatim>\<open>str.strip\<close> removes and the pattern \<^verbatim>\<open>\s\<close>
  matches, among the code points below 256.
\<close>

datatype error =
    ValueError | JSONDecodeError | TypeError | AttributeError | OverflowError
  | ServiceError string | ValidationError

definition is_space :: "char \<Rightarrow> bool" where
  "is_space c = (c \<in> set [CHR 0x09, CHR 0x0A, CHR 0x0B, CHR 0x0C, CHR 0x0D, CHR 0x1C, CHR 0x1D,
                            CHR 0x1E, CHR 0x1F, CHR 0x20, CHR 0x85, CHR 0xA0])"

definition strip :: "string \<Rightarrow> string" where
  "strip s = rev (dropWhile is_space (rev (dropWhile is_space s)))"

definition startswith :: "string \<Rightarrow> string \<Rightarrow> bool" where
  "startswith s p = (take (length p) s = p)"

text \<open>\<^verbatim>\<open>text.split("```")\<close>: the parts between the non-overlapping fences, left to right.\<close>

function split_fence :: "string \<Rightarrow> string \<Rightarrow> string list" where
  "split_fence cur s =
     (if s = [] then [cur]
      else if startswith s ''```'' then cur # split_fence [] (drop 3 s)
      else split_fence (cur @ [hd s]) (tl s))"
  by pat_completeness auto
termination
  by (relation "measure (\<lambda>(cur, s). length s)") auto

text \<open>\<^verbatim>\<open>re.sub(r"^\s*json\s*", "", text, flags=re.IGNORECASE)\<close>.\<close>

definition sub_json_tag :: "string \<Rightarrow> string" where
  "sub_json_tag t =
     (let u = dropWhile is_space t
      in if lower (take 4 u) = ''json'' then dropWhile is_space (drop 4 u) else t)"

text \<open>\<^verbatim>\<open>str.find\<close> and \<^verbatim>\<open>str.rfind\<close> of one character: the index, or \<open>-1\<close>.\<close>

definition find_char :: "char \<Rightarrow> string \<Rightarrow> int" where
  "find_char c s = (if c \<in> set s then int (length (takeWhile (\<lambda>x. x \<noteq> c) s)) else - 1)"

definition rfind_char :: "char \<Rightarrow> string \<Rightarrow> int" where
  "rfind_char c s =
     (if c \<in> set s then int (length s) - 1 - int (length (takeWhile (\<lambda>x. x \<noteq> c) (rev s)))
      else - 1)"

definition unfence :: "string \<Rightarrow> string" where
  "unfence text =
     (if startswith text ''```'' then
        (let parts = split_fence [] text
         in if 2 \<le> length parts then strip (sub_json_tag (strip (parts ! 1))) else text)
      else text)"

definition extract_json :: "string option \<Rightarrow> error + string" where
  "extract_json text0 =
     (let text = unfence (strip (or_empty text0));
          start = find_char CHR ''{'' text;
          end_pos = rfind_char CHR ''}'' text
      in if start = - 1 \<or> end_pos = - 1 \<or> end_pos \<le> start then Inl ValueError
         else Inr (take (nat (end_pos + 1 - start)) (drop (nat start) text)))"

subsection \<open>Parsed JSON and the score map\<close>

text \<open>
  A Python \<^verbatim>\<open>float\<close> is a real number, an infinity or NaN (\<^verbatim>\<open>json.loads\<close> accepts the
  literals \<^verbatim>\<open>Infinity\<close>, \<^verbatim>\<open>-Infinity\<close> and \<^verbatim>\<open>NaN\<close>); rounding is not modelled.  A value
  returned by \<^verbatim>\<open>json.loads\<close> is a \<open>json\<close>; a dictionary is the list of its items in
  insertion order, read with \<^const>\<open>map_of\<close>.
\<close>

datatype pyfloat = Finite real | PInf | NInf | NaN

datatype json =
    JNull | JBool bool | JInt int | JFloat pyfloat | JStr string
  | JArr "json list" | JObj "(string \<times> json) list"

text \<open>The comparison \<^verbatim>\<open>a < b\<close> of two floats, and the built-ins \<^verbatim>\<open>min(a, b)\<close> and
  \<^verbatim>\<open>max(a, b)\<close>, which keep the first argument unless the second is strictly better.\<close>

fun py_lt :: "pyfloat \<Rightarrow> pyfloat \<Rightarrow> bool" where
  "py_lt NaN b = False"
| "py_lt a NaN = False"
| "py_lt (Finite x) (Finite y) = (x < y)"
| "py_lt NInf b = (b \<noteq> NInf)"
| "py_lt a PInf = (a \<noteq> PInf)"
| "py_lt a b = False"

definition py_min :: "pyfloat \<Rightarrow> pyfloat \<Rightarrow> pyfloat" where
  "py_min a b = (if py_lt b a then b else a)"

definition py_max :: "pyfloat \<Rightarrow> pyfloat \<Rightarrow> pyfloat" where
  "py_max a b = (if py_lt a b then b else a)"

text \<open>\<^verbatim>\<open>max(0.0, min(10.0, x))\<close> as Python evaluates it.\<close>

definition clamp_py :: "pyfloat \<Rightarrow> pyfloat" where
  "clamp_py x = py_max (Finite 0) (py_min (Finite 10) x)"

text \<open>The same value as a real number (\<open>clamp_py_eq\<close> below): NaN and \<open>+\<infinity>\<close> are not
  below \<open>10.0\<close>, so \<open>min\<close> keeps \<open>10.0\<close>; \<open>-\<infinity>\<close> is not above \<open>0.0\<close>, so \<open>max\<close> keeps \<open>0.0\<close>.\<close>

definition llm_clamp :: "pyfloat \<Rightarrow> real" where
  "llm_clamp x = (case x of Finite v \<Rightarrow> max 0 (min 10 v) | PInf \<Rightarrow> 10 | NInf \<Rightarrow> 0 | NaN \<Rightarrow> 10)"

text \<open>Truth value of a parsed value (\<^verbatim>\<open>if did\<close>).\<close>

fun truthy :: "json \<Rightarrow> bool" where
  "truthy JNull = False"
| "truthy (JBool b) = b"
| "truthy (JInt n) = (n \<noteq> 0)"
| "truthy (JFloat x) = (x \<noteq> Finite 0)"
| "truthy (JStr s) = (s \<noteq> [])"
| "truthy (JArr xs) = (xs \<noteq> [])"
| "truthy (JObj kvs) = (kvs \<noteq> [])"

text \<open>\<^verbatim>\<open>isinstance(sc, (int, float))\<close>: \<^verbatim>\<open>bool\<close> is a subclass of \<^verbatim>\<open>int\<close>.\<close>

fun is_number :: "json \<Rightarrow> bool" where
  "is_number (JBool b) = True"
| "is_number (JInt n) = True"
| "is_number (JFloat x) = True"
| "is_number v = False"

text \<open>\<^verbatim>\<open>float(sc)\<close> of a number: an integer that rounds beyond the largest double raises
  \<^verbatim>\<open>OverflowError\<close>.\<close>

fun float_of :: "json \<Rightarrow> error + pyfloat" where
  "float_of (JBool b) = Inr (Finite (if b then 1 else 0))"
| "float_of (JInt n) =
     (if 2 ^ 1024 - 2 ^ 970 \<le> \<bar>n\<bar> then Inl OverflowError else Inr (Finite (of_int n)))"
| "float_of (JFloat x) = Inr x"
| "float_of v = Inl TypeError"

text \<open>\<^verbatim>\<open>v.get(key, default)\<close>: only a dictionary has the method.\<close>

fun dict_get :: "json \<Rightarrow> string \<Rightarrow> json \<Rightarrow> error + json" where
  "dict_get (JObj kvs) k dflt = Inr (case map_of kvs k of None \<Rightarrow> dflt | Some v \<Rightarrow> v)"
| "dict_get v k dflt = Inl AttributeError"

text \<open>\<^verbatim>\<open>for item in v\<close>: a list gives its elements, a dictionary its keys, a string its
  characters; the other values are not iterable.\<close>

fun iterate :: "json \<Rightarrow> error + json list" where
  "iterate (JArr xs) = Inr xs"
| "iterate (JObj kvs) = Inr (map (\<lambda>kv. JStr (fst kv)) kvs)"
| "iterate (JStr s) = Inr (map (\<lambda>c. JStr [c]) s)"
| "iterate v = Inl TypeError"

text \<open>
  \<^verbatim>\<open>scores[did] = float(sc)\<close>, the right-hand side first.  A list or a dictionary is not
  hashable.  The map keeps the string keys only: it is read at the identifiers of the
  shortlist alone, which are strings, and a string key equals no key of another type.
\<close>

fun store :: "(string \<rightharpoonup> pyfloat) \<Rightarrow> json \<Rightarrow> pyfloat \<Rightarrow> error + (string \<rightharpoonup> pyfloat)" where
  "store scores (JStr s) v = Inr (scores(s \<mapsto> v))"
| "store scores (JArr xs) v = Inl TypeError"
| "store scores (JObj kvs) v = Inl TypeError"
| "store scores did v = Inr scores"

fun score_items :: "(string \<rightharpoonup> pyfloat) \<Rightarrow> json list \<Rightarrow> error + (string \<rightharpoonup> pyfloat)" where
  "score_items scores [] = Inr scores"
| "score_items scores (item # items) =
     (case dict_get item ''digest_id'' JNull of
        Inl e \<Rightarrow> Inl e
      | Inr did \<Rightarrow>
          (case dict_get item ''relevance_score'' JNull of
             Inl e \<Rightarrow> Inl e
           | Inr sc \<Rightarrow>
               if truthy did \<and> is_number sc then
                 (case float_of sc of
                    Inl e \<Rightarrow> Inl e
                  | Inr v \<Rightarrow>
                      (case store scores did v of
                         Inl e \<Rightarrow> Inl e
                       | Inr scores' \<Rightarrow> score_items scores' items))
               else score_items scores items))"

text \<open>
  The second half of \<^verbatim>\<open>_llm_score\<close>, from the content of the reply to the score map.
  \<^verbatim>\<open>json.loads\<close> is the parameter \<open>loads\<close>; \<^term>\<open>None\<close> is its \<^verbatim>\<open>JSONDecodeError\<close>.
\<close>

definition parse_reply :: "(string \<Rightarrow> json option) \<Rightarrow> string option \<Rightarrow> error + (string \<rightharpoonup> pyfloat)" where
  "parse_reply loads content =
     (let text = strip (or_empty content)
      in case extract_json (Some text) of
           Inl e \<Rightarrow> Inl e
         | Inr json_text \<Rightarrow>
             (case loads json_text of
                None \<Rightarrow> Inl JSONDecodeError
              | Some data \<Rightarrow>
                  (case dict_get data ''articles'' (JArr []) of
                     Inl e \<Rightarrow> Inl e
                   | Inr articles \<Rightarrow>
                       (case iterate articles of
                          Inl e \<Rightarrow> Inl e
                        | Inr items \<Rightarrow> score_items Map.empty items))))"

section \<open>Rendering of numbers and sorting\<close>

text \<open>\<^verbatim>\<open>str(n)\<close> of a count, and the format \<^verbatim>\<open>:.2f\<close> of a real number (two decimals,
  ties to the even neighbour).\<close>

definition digit_char :: "nat \<Rightarrow> char" where
  "digit_char n = ''0123456789'' ! (n mod 10)"

fun show_nat :: "nat \<Rightarrow> string" where
  "show_nat n = (if n < 10 then [digit_char n] else show_nat (n div 10) @ [digit_char n])"

declare show_nat.simps [simp del]

definition round_half_even :: "real \<Rightarrow> int" where
  "round_half_even x =
     (let f = \<lfloor>x\<rfloor>; r = x - of_int f
      in if r < 1 / 2 then f else if 1 / 2 < r then f + 1 else if even f then f else f + 1)"

definition format_2f :: "real \<Rightarrow> string" where
  "format_2f x =
     (let c = nat (round_half_even (\<bar>x\<bar> * 100))
      in (if x < 0 then ''-'' else []) @ show_nat (c div 100) @ ''.''
           @ [digit_char (c div 10), digit_char c])"

text \<open>\<^verbatim>\<open>sep.join(xs)\<close>.\<close>

fun join :: "string \<Rightarrow> string list \<Rightarrow> string" where
  "join sep [] = []"
| "join sep [x] = x"
| "join sep (x # y # ys) = x @ sep @ join sep (y # ys)"

text \<open>
  \<^verbatim>\<open>xs.sort(key=key, reverse=True)\<close>: Python reverses the list, sorts it stably in
  increasing order of the key and reverses the result, so that elements with equal keys
  keep their order.  The keys are finite floats here, compared as real numbers.
\<close>

definition sort_reverse :: "('a \<Rightarrow> real) \<Rightarrow> 'a list \<Rightarrow> 'a list" where
  "sort_reverse key xs = rev (sort_key key (rev xs))"

section \<open>The curator agent\<close>

subsection \<open>Data\<close>

text \<open>
  A candidate item has a string identifier and type tag; its title and summary may be
  \<^verbatim>\<open>None\<close>.  \<open>created_at\<close> is the instant, in seconds, that
  \<^verbatim>\<open>created_at.astimezone(timezone.utc)\<close> denotes; it is \<^term>\<open>None\<close> when the key is
  missing, when the value is not a \<^verbatim>\<open>datetime\<close> and when the conversion raises, the three
  cases in which the source leaves the recency at \<open>0.0\<close>.
\<close>

record digest =
  id_str :: string
  title :: "string option"
  summary :: "string option"
  article_type :: string
  created_at :: "real option"

text \<open>The copy \<^verbatim>\<open>d2\<close> of an item, with the keys \<^verbatim>\<open>_heur_score\<close> and \<^verbatim>\<open>_heur_why\<close>.\<close>

record scored = digest +
  heur_score :: real
  heur_why :: string

record profile =
  name :: "string option"
  background :: "string option"
  expertise_level :: "string option"
  interests :: "string list"
  preferences :: "string \<rightharpoonup> bool"

record CuratorAgent =
  user_profile :: profile
  interest_tokens :: "string set"
  boost_terms :: "string set"
  down_terms :: "string set"

record RankedArticle =
  digest_id :: string
  relevance_score :: real
  rank :: nat
  reasoning :: string

type_synonym row = "string \<times> real \<times> string"

text \<open>The service behind \<^verbatim>\<open>self.client.chat.completions.create\<close>, from the system and
  user messages to the content of the first choice, or the exception it raises.\<close>

type_synonym service = "string \<Rightarrow> string \<Rightarrow> error + string option"

subsection \<open>Construction of the profile model\<close>

definition prefs_get :: "(string \<rightharpoonup> bool) \<Rightarrow> string \<Rightarrow> bool" where
  "prefs_get prefs k = (prefs k = Some True)"

definition init :: "profile \<Rightarrow> CuratorAgent" where
  "init p =
     (let interests_text = join '' '' (interests p);
          prefs = preferences p
      in \<lparr> user_profile = p,
           interest_tokens = set (tokenize (Some interests_text)),
           boost_terms =
             (if prefs_get prefs ''prefer_system_design''
              then set [''architecture'', ''pipeline'', ''scalability'', ''latency'', ''reliability'']
              else {})
             \<union> (if prefs_get prefs ''prefer_implementation_details''
                then set [''implementation'', ''benchmark'', ''evaluation'', ''metrics'', ''code'']
                else {})
             \<union> (if prefs_get prefs ''prefer_production_realism''
                then set [''production'', ''deployment'', ''monitoring'', ''incident'', ''cost'']
                else {}),
           down_terms =
             (if prefs_get prefs ''avoid_marketing_hype''
              then set [''webinar'', ''register'', ''limited'', ''launch'', ''partnership'']
              else {}) \<rparr>)"

subsection \<open>Stage A: the heuristic score and the pre-rank\<close>

definition toks :: "digest \<Rightarrow> string set" where
  "toks d = set (tokenize (Some (or_empty (title d) @ '' '' @ or_empty (summary d))))"

definition interest_hits :: "CuratorAgent \<Rightarrow> digest \<Rightarrow> nat" where
  "interest_hits self d = card (toks d \<inter> interest_tokens self)"

definition boost_hits :: "CuratorAgent \<Rightarrow> digest \<Rightarrow> nat" where
  "boost_hits self d = card (toks d \<inter> boost_terms self)"

definition down_hits :: "CuratorAgent \<Rightarrow> digest \<Rightarrow> nat" where
  "down_hits self d = card (toks d \<inter> down_terms self)"

text \<open>\<open>now\<close> is the value of \<^verbatim>\<open>_now_utc()\<close>, in seconds, when the item is scored.\<close>

definition recency :: "real \<Rightarrow> digest \<Rightarrow> real" where
  "recency now d =
     (case created_at d of
        None \<Rightarrow> 0
      | Some c \<Rightarrow>
          (let age_h = max 0 ((now - c) / 3600)
           in max 0 (1.5 - (age_h / 24) * 1.5)))"

definition heuristic_score :: "CuratorAgent \<Rightarrow> real \<Rightarrow> digest \<Rightarrow> real \<times> string" where
  "heuristic_score self now d =
     (let base = real (interest_hits self d) * 1.2 + real (boost_hits self d) * 0.8
                 - real (down_hits self d) * 0.7;
          score = base + recency now d;
          why = ''interest='' @ show_nat (interest_hits self d)
                @ '', boost='' @ show_nat (boost_hits self d)
                @ '', recency='' @ format_2f (recency now d)
      in (score, why))"

definition annotate :: "CuratorAgent \<Rightarrow> real \<Rightarrow> digest \<Rightarrow> scored" where
  "annotate self now d =
     (let (s, why) = heuristic_score self now d
      in \<lparr> id_str = id_str d, title = title d, summary = summary d,
           article_type = article_type d, created_at = created_at d,
           heur_score = s, heur_why = why \<rparr>)"

text \<open>\<open>clock i\<close> is the current time when the \<open>i\<close>-th item of the pool is scored.\<close>

definition pre_rank :: "CuratorAgent \<Rightarrow> (nat \<Rightarrow> real) \<Rightarrow> digest list \<Rightarrow> nat \<Rightarrow> scored list" where
  "pre_rank self clock digests keep =
     take keep (sort_reverse heur_score
       (map (\<lambda>(i, d). annotate self (clock i) d) (enumerate 0 digests)))"

subsection \<open>Stage B: the request and the external scores\<close>

definition LLM_SCORE_PROMPT :: string where
  \<open>LLM_SCORE_PROMPT =
     ''You are an AI news curator.\<newline>\<newline>''
     @ ''You will receive a list of digests (id, title, summary, type) and a user profile.\<newline>''
     @ ''Your job: assign a relevance_score (0.0 to 10.0) for EACH digest.\<newline>\<newline>''
     @ ''IMPORTANT OUTPUT RULES:\<newline>''
     @ ''- Return ONLY valid JSON\<newline>''
     @ ''- Do NOT include markdown\<newline>''
     @ ''- Do NOT include explanations outside JSON\<newline>''
     @ ''- Do NOT include rank\<newline>''
     @ ''- JSON format must be EXACTLY:\<newline>''
     @ ''{\<newline>''
     @ ''  "articles": [\<newline>''
     @ ''    {"digest_id": "...", "relevance_score": 7.5},\<newline>''
     @ ''    ...\<newline>''
     @ ''  ]\<newline>''
     @ ''}\<newline>''\<close>

text \<open>\<^verbatim>\<open>str(v)\<close> in an f-string, of a string or \<^verbatim>\<open>None\<close>.\<close>

definition py_str :: "string option \<Rightarrow> string" where
  "py_str v = (case v of None \<Rightarrow> ''None'' | Some s \<Rightarrow> s)"

definition digest_block :: "scored \<Rightarrow> string" where
  "digest_block d =
     ''ID: '' @ id_str d @ ''\<newline>Title: '' @ py_str (title d)
     @ ''\<newline>Summary: '' @ py_str (summary d) @ ''\<newline>Type: '' @ article_type d"

definition digest_list :: "scored list \<Rightarrow> string" where
  "digest_list shortlisted = join ''\<newline>\<newline>'' (map digest_block shortlisted)"

definition system_prompt :: "CuratorAgent \<Rightarrow> string" where
  "system_prompt self =
     (let profile = user_profile self
      in LLM_SCORE_PROMPT @ ''\<newline>\<newline>User Profile:\<newline>Name: '' @ py_str (name profile)
         @ ''\<newline>Background: '' @ py_str (background profile)
         @ ''\<newline>Expertise Level: '' @ py_str (expertise_level profile)
         @ ''\<newline>Interests: '' @ join '', '' (interests profile))"

definition user_prompt :: "scored list \<Rightarrow> string" where
  "user_prompt shortlisted =
     ''Score these '' @ show_nat (length shortlisted)
     @ '' digests by relevance. Return JSON only.\<newline>\<newline>''
     @ digest_list shortlisted @ ''\<newline>''"

definition llm_score ::
  "CuratorAgent \<Rightarrow> service \<Rightarrow> (string \<Rightarrow> json option) \<Rightarrow> scored list
    \<Rightarrow> error + (string \<rightharpoonup> pyfloat)" where
  "llm_score self client loads shortlisted =
     (case client (system_prompt self) (user_prompt shortlisted) of
        Inl e \<Rightarrow> Inl e
      | Inr content \<Rightarrow> parse_reply loads content)"

subsection \<open>The public method\<close>

definition PRE_RANK_KEEP :: nat where
  "PRE_RANK_KEEP = 25"

definition shortlist :: "CuratorAgent \<Rightarrow> (nat \<Rightarrow> real) \<Rightarrow> digest list \<Rightarrow> scored list" where
  "shortlist self clock digests =
     pre_rank self clock digests (min PRE_RANK_KEEP (length digests))"

text \<open>The row of a shortlisted item inside the \<^verbatim>\<open>try\<close> block, and in the handler
  (whose \<^verbatim>\<open>print\<close> of the exception is not modelled).\<close>

definition merged_row :: "(string \<rightharpoonup> pyfloat) \<Rightarrow> scored \<Rightarrow> row" where
  "merged_row llm_scores d =
     (let did = id_str d
      in case llm_scores did of
           Some x \<Rightarrow>
             (did, llm_clamp x, ''LLM relevance score (shortlisted after heuristic pre-rank)'')
         | None \<Rightarrow>
             (did, max 0 (min 10 (3 + min 7 (heur_score d))),
              ''Fallback heuristic (LLM did not return score): '' @ heur_why d))"

definition heuristic_row :: "scored \<Rightarrow> row" where
  "heuristic_row d =
     (id_str d, max 0 (min 10 (3 + min 7 (heur_score d))),
      ''Heuristic ranking (no LLM): '' @ heur_why d)"

definition final_rows ::
  "CuratorAgent \<Rightarrow> service \<Rightarrow> (string \<Rightarrow> json option) \<Rightarrow> scored list \<Rightarrow> row list" where
  "final_rows self client loads shortlisted =
     (case llm_score self client loads shortlisted of
        Inr llm_scores \<Rightarrow> map (merged_row llm_scores) shortlisted
      | Inl e \<Rightarrow> map heuristic_row shortlisted)"

text \<open>The constructor of \<^verbatim>\<open>RankedArticle\<close> validates the fields: the score within
  \<open>[0, 10]\<close> and the rank at least \<open>1\<close>; otherwise it raises.\<close>

definition RankedArticle_init :: "string \<Rightarrow> real \<Rightarrow> nat \<Rightarrow> string \<Rightarrow> error + RankedArticle" where
  "RankedArticle_init did score idx why =
     (if 0 \<le> score \<and> score \<le> 10 \<and> 1 \<le> idx
      then Inr \<lparr> digest_id = did, relevance_score = score, rank = idx, reasoning = why \<rparr>
      else Inl ValidationError)"

fun ranked_from :: "nat \<Rightarrow> row list \<Rightarrow> error + RankedArticle list" where
  "ranked_from idx [] = Inr []"
| "ranked_from idx ((did, score, why) # rows) =
     (case RankedArticle_init did score idx why of
        Inl e \<Rightarrow> Inl e
      | Inr a \<Rightarrow>
          (case ranked_from (Suc idx) rows of
             Inl e \<Rightarrow> Inl e
           | Inr ranked \<Rightarrow> Inr (a # ranked)))"

definition rank_digests ::
  "CuratorAgent \<Rightarrow> (nat \<Rightarrow> real) \<Rightarrow> service \<Rightarrow> (string \<Rightarrow> json option) \<Rightarrow> digest list
    \<Rightarrow> error + RankedArticle list" where
  "rank_digests self clock client loads digests =
     (if digests = [] then Inr []
      else
        (let shortlisted = shortlist self clock digests;
             rows = final_rows self client loads shortlisted
         in ranked_from 1 (sort_reverse (\<lambda>x. fst (snd x)) rows)))"

subsection \<open>The reader profile of \<^verbatim>\<open>user_profile.py\<close>\<close>

definition USER_PROFILE :: profile where
  "USER_PROFILE =
     \<lparr> name = Some ''Rachit'',
       background = Some (''Applied AI engineer with hands-on experience building backend pipelines, ''
         @ ''LLM-driven systems, and production-focused AI solutions. ''
         @ ''Strong interest in turning research ideas into reliable, scalable systems.''),
       expertise_level = Some ''Intermediate to Advanced'',
       interests =
         [''Large Language Models (LLMs) in real-world applications'',
          ''Retrieval-Augmented Generation (RAG) systems'',
          ''LLM orchestration and agent-based architectures'',
          ''Backend systems for AI applications'',
          ''Production deployment of AI models'',
          ''Model evaluation, reliability, and performance tuning'',
          ''AI system design and end-to-end pipelines'',
          ''Practical research with engineering impact'',
          ''AI infrastructure, scalability, and cost optimization'',
          ''Learning from real production failures and case studies''],
       preferences =
         map_of [(''prefer_practical'', True), (''prefer_system_design'', True),
                 (''prefer_implementation_details'', True), (''prefer_production_realism'', True),
                 (''avoid_marketing_hype'', True), (''avoid_theoretical_only_content'', True)] \<rparr>"

section \<open>Auxiliary definitions for the proofs\<close>

text \<open>Reading a decimal numeral back, to show that \<^const>\<open>show_nat\<close> loses nothing.\<close>

definition is_digit :: "char \<Rightarrow> bool" where
  "is_digit c = (c \<in> set ''0123456789'')"

definition digit_val :: "char \<Rightarrow> nat" where
  "digit_val c = length (takeWhile (\<lambda>x. x \<noteq> c) ''0123456789'')"

definition read_nat :: "string \<Rightarrow> nat" where
  "read_nat s = foldl (\<lambda>a c. 10 * a + digit_val c) 0 s"

text \<open>A pool of two items, used where a property is run on a concrete input.\<close>

definition example_pool :: "digest list" where
  "example_pool =
     [\<lparr> id_str = ''openai:1'', title = Some ''Production deployment webinar'',
         summary = Some ''Register now for the launch'', article_type = ''openai'',
         created_at = Some 0 \<rparr>,
      \<lparr> id_str = ''youtube:2'', title = Some ''Scalability of RAG pipelines'',
         summary = None, article_type = ''youtube'', created_at = None \<rparr>]"

text \<open>A reply of the service that scores one of the two items, above the range, and
  the value \<^verbatim>\<open>json.loads\<close> gives on its JSON span.\<close>

definition example_reply :: string where
  \<open>example_reply =
     ''```json\<newline>{"articles": [{"digest_id": "youtube:2", "relevance_score": 12.5}]}\<newline>```''\<close>

definition example_loads :: "string \<Rightarrow> json option" where
  \<open>example_loads =
     map_of [(''{"articles": [{"digest_id": "youtube:2", "relevance_score": 12.5}]}'',
              JObj [(''articles'',
                JArr [JObj [(''digest_id'', JStr ''youtube:2''),
                            (''relevance_score'', JFloat (Finite 12.5))]])])]\<close>

section \<open>Properties\<close>

subsection \<open>Sorting, clamping and the construction of the result\<close>


lemma sorted_sort_reverse:
  "sorted_wrt (\<lambda>a b. key b \<le> key a) (sort_reverse key xs)"
proof -
  have "sorted (map key (sort_key key (rev xs)))"
    by (rule sorted_sort_key)
  then have "sorted_wrt (\<lambda>a b. key a \<le> key b) (sort_key key (rev xs))"
    by (simp add: sorted_map)
  then show ?thesis
    by (simp add: sort_reverse_def sorted_wrt_rev)
qed

lemma sort_reverse_stable:
  "filter (\<lambda>y. key y = k) (sort_reverse key xs) = filter (\<lambda>y. key y = k) xs"
proof -
  have "filter (\<lambda>y. key y = k) (sort_key key (rev xs)) = filter (\<lambda>y. key y = k) (rev xs)"
    by (rule sort_key_stable)
  then show ?thesis
    by (simp add: sort_reverse_def rev_filter [symmetric])
qed

lemma mset_sort_reverse: "mset (sort_reverse key xs) = mset xs"
  by (simp add: sort_reverse_def)

lemma length_sort_reverse: "length (sort_reverse key xs) = length xs"
  by (simp add: sort_reverse_def)

lemma set_sort_reverse: "set (sort_reverse key xs) = set xs"
  by (simp add: sort_reverse_def)

lemma length_shortlist:
  "length (shortlist self clock digests) = min (length digests) 25"
  by (simp add: shortlist_def pre_rank_def PRE_RANK_KEEP_def length_sort_reverse)

lemma llm_clamp_range: "0 \<le> llm_clamp x \<and> llm_clamp x \<le> 10"
  by (cases x) (simp_all add: llm_clamp_def)

lemma clamp_py_eq: "clamp_py x = Finite (llm_clamp x)"
  by (cases x) (auto simp: clamp_py_def py_min_def py_max_def llm_clamp_def)

lemma ranked_from_ok:
  assumes "\<forall>x \<in> set rows. 0 \<le> fst (snd x) \<and> fst (snd x) \<le> 10" and "1 \<le> idx"
  shows "\<exists>ranked. ranked_from idx rows = Inr ranked
           \<and> map (\<lambda>r. (digest_id r, relevance_score r, reasoning r)) ranked = rows
           \<and> map rank ranked = [idx ..< idx + length rows]"
  using assms
proof (induction rows arbitrary: idx)
  case Nil
  then show ?case by simp
next
  case (Cons x rows)
  obtain did score why where x: "x = (did, score, why)"
    by (cases x) auto
  from Cons.prems have "1 \<le> Suc idx" and rest: "\<forall>x \<in> set rows. 0 \<le> fst (snd x) \<and> fst (snd x) \<le> 10"
    by simp_all
  from Cons.IH [OF rest \<open>1 \<le> Suc idx\<close>] obtain ranked where
    r: "ranked_from (Suc idx) rows = Inr ranked"
       "map (\<lambda>r. (digest_id r, relevance_score r, reasoning r)) ranked = rows"
       "map rank ranked = [Suc idx ..< Suc idx + length rows]"
    by blast
  from Cons.prems x have ok: "0 \<le> score" "score \<le> 10" "1 \<le> idx"
    by simp_all
  have e: "idx + length (x # rows) = Suc idx + length rows"
    by simp
  have upt: "[idx ..< idx + length (x # rows)] = idx # [Suc idx ..< Suc idx + length rows]"
    unfolding e by (rule upt_conv_Cons) simp
  have "ranked_from idx (x # rows)
          = Inr (\<lparr> digest_id = did, relevance_score = score, rank = idx, reasoning = why \<rparr> # ranked)"
    using r(1) ok by (simp add: x RankedArticle_init_def)
  then show ?case
    using r(2,3) unfolding upt by (simp add: x)
qed

lemma final_rows_range:
  "x \<in> set (final_rows self client loads shortlisted) \<Longrightarrow> 0 \<le> fst (snd x) \<and> fst (snd x) \<le> 10"
  using llm_clamp_range
  by (auto simp: final_rows_def merged_row_def heuristic_row_def Let_def split: sum.splits option.splits)

lemma rank_digests_shape:
  "\<exists>ranked. rank_digests self clock client loads digests = Inr ranked
     \<and> map (\<lambda>r. (digest_id r, relevance_score r, reasoning r)) ranked
         = sort_reverse (\<lambda>x. fst (snd x)) (final_rows self client loads (shortlist self clock digests))
     \<and> map rank ranked = [1 ..< Suc (length ranked)]"
proof (cases "digests = []")
  case True
  then show ?thesis
    by (simp add: rank_digests_def shortlist_def pre_rank_def sort_reverse_def final_rows_def split: sum.splits)
next
  case False
  let ?rows = "sort_reverse (\<lambda>x. fst (snd x)) (final_rows self client loads (shortlist self clock digests))"
  have "\<forall>x \<in> set ?rows. 0 \<le> fst (snd x) \<and> fst (snd x) \<le> 10"
    by (simp add: set_sort_reverse final_rows_range)
  from ranked_from_ok [OF this, of 1] obtain ranked where
    r: "ranked_from 1 ?rows = Inr ranked"
       "map (\<lambda>r. (digest_id r, relevance_score r, reasoning r)) ranked = ?rows"
       "map rank ranked = [1 ..< 1 + length ?rows]"
    by auto
  from r(2) have "length ranked = length ?rows"
    by (metis length_map)
  with r False show ?thesis
    by (simp add: rank_digests_def Let_def)
qed

subsection \<open>The ranking coordinator\<close>

lemma map_fst_final_rows:
  "map fst (final_rows self client loads shortlisted) = map id_str shortlisted"
  by (auto simp: final_rows_def merged_row_def heuristic_row_def Let_def split: sum.splits option.splits)

lemma shortlist_from_pool:
  assumes "d \<in> set (shortlist self clock digests)"
  shows "\<exists>i < length digests. d = annotate self (clock i) (digests ! i)"
proof -
  from assms have "d \<in> set (map (\<lambda>(i, d). annotate self (clock i) d) (enumerate 0 digests))"
    unfolding shortlist_def pre_rank_def
    using set_take_subset set_sort_reverse by fastforce
  then obtain i x where "(i, x) \<in> set (enumerate 0 digests)" "d = annotate self (clock i) x"
    by auto
  then show ?thesis
    by (auto simp: in_set_enumerate_eq)
qed

lemma annotate_fields:
  "id_str (annotate self now d) = id_str d
   \<and> heur_score (annotate self now d) = fst (heuristic_score self now d)
   \<and> heur_why (annotate self now d) = snd (heuristic_score self now d)"
  by (simp add: annotate_def split: prod.splits)

lemma example_reply_span:
  \<open>extract_json (Some (strip (or_empty (Some example_reply))))
     = Inr ''{"articles": [{"digest_id": "youtube:2", "relevance_score": 12.5}]}''\<close>
  by code_simp

lemma example_reply_scores:
  "parse_reply example_loads (Some example_reply) = Inr [''youtube:2'' \<mapsto> Finite 12.5]"
  by (simp add: parse_reply_def example_reply_span) (simp add: example_loads_def)

text \<open>
  C1: when the external scoring step raises, whatever the exception, \<open>rank_digests\<close>
  returns normally; the result has \<open>min (pool size) 25\<close> items, and its items are the
  shortlisted identifiers, each with the fallback score \<open>max 0 (min 10 (3 + min 7 h))\<close> of
  its own heuristic score \<open>h\<close>, which is the score the heuristic gave to an item of the pool
  with that identifier.
\<close>

theorem rank_digests_external_failure:
  assumes "llm_score self client loads (shortlist self clock digests) = Inl e"
  shows "\<exists>ranked. rank_digests self clock client loads digests = Inr ranked
           \<and> length ranked = min (length digests) 25
           \<and> mset (map (\<lambda>r. (digest_id r, relevance_score r, reasoning r)) ranked)
               = mset (map (\<lambda>d. (id_str d, max 0 (min 10 (3 + min 7 (heur_score d))),
                                   ''Heuristic ranking (no LLM): '' @ heur_why d))
                        (shortlist self clock digests))
           \<and> (\<forall>d \<in> set (shortlist self clock digests). \<exists>i < length digests.
                 id_str d = id_str (digests ! i)
                 \<and> heur_score d = fst (heuristic_score self (clock i) (digests ! i)))"
proof -
  let ?sl = "shortlist self clock digests"
  have own: "\<forall>d \<in> set ?sl. \<exists>i < length digests.
                 id_str d = id_str (digests ! i)
                 \<and> heur_score d = fst (heuristic_score self (clock i) (digests ! i))"
    using shortlist_from_pool annotate_fields by metis
  from rank_digests_shape [of self clock client loads digests] obtain ranked where
    r: "rank_digests self clock client loads digests = Inr ranked"
       "map (\<lambda>r. (digest_id r, relevance_score r, reasoning r)) ranked
          = sort_reverse (\<lambda>x. fst (snd x)) (final_rows self client loads ?sl)"
    by blast
  have rows: "final_rows self client loads ?sl = map heuristic_row ?sl"
    using assms by (simp add: final_rows_def)
  have "length ranked = length ?sl"
    using r(2) by (metis length_map length_sort_reverse rows)
  then have len: "length ranked = min (length digests) 25"
    by (simp add: length_shortlist)
  have "mset (map (\<lambda>r. (digest_id r, relevance_score r, reasoning r)) ranked)
          = mset (map heuristic_row ?sl)"
    by (simp add: r(2) rows mset_sort_reverse)
  also have "map heuristic_row ?sl
          = map (\<lambda>d. (id_str d, max 0 (min 10 (3 + min 7 (heur_score d))),
                        ''Heuristic ranking (no LLM): '' @ heur_why d)) ?sl"
    by (simp add: heuristic_row_def)
  finally show ?thesis
    using r(1) len own by blast
qed

text \<open>The service times out on the example pool: both items take the fallback score.\<close>

theorem rank_digests_external_failure_witness:
  "llm_score (init USER_PROFILE) (\<lambda>s u. Inl (ServiceError ''timeout'')) (map_of [])
      (shortlist (init USER_PROFILE) (\<lambda>i. 43200) example_pool) = Inl (ServiceError ''timeout'')
   \<and> rank_digests (init USER_PROFILE) (\<lambda>i. 43200) (\<lambda>s u. Inl (ServiceError ''timeout''))
        (map_of []) example_pool
      = Inr [\<lparr> digest_id = ''youtube:2'', relevance_score = 31 / 5, rank = 1,
               reasoning = ''Heuristic ranking (no LLM): interest=2, boost=1, recency=0.00'' \<rparr>,
             \<lparr> digest_id = ''openai:1'', relevance_score = 113 / 20, rank = 2,
               reasoning = ''Heuristic ranking (no LLM): interest=2, boost=2, recency=0.75'' \<rparr>]
   \<and> (\<exists>ranked. rank_digests (init USER_PROFILE) (\<lambda>i. 43200)
          (\<lambda>s u. Inl (ServiceError ''timeout'')) (map_of []) example_pool = Inr ranked
        \<and> length ranked = min (length example_pool) 25)"
proof -
  have h: "llm_score (init USER_PROFILE) (\<lambda>s u. Inl (ServiceError ''timeout'')) (map_of [])
      (shortlist (init USER_PROFILE) (\<lambda>i. 43200) example_pool) = Inl (ServiceError ''timeout'')"
    by (simp add: llm_score_def)
  have v: "rank_digests (init USER_PROFILE) (\<lambda>i. 43200) (\<lambda>s u. Inl (ServiceError ''timeout''))
        (map_of []) example_pool
      = Inr [\<lparr> digest_id = ''youtube:2'', relevance_score = 31 / 5, rank = 1,
               reasoning = ''Heuristic ranking (no LLM): interest=2, boost=1, recency=0.00'' \<rparr>,
             \<lparr> digest_id = ''openai:1'', relevance_score = 113 / 20, rank = 2,
               reasoning = ''Heuristic ranking (no LLM): interest=2, boost=2, recency=0.75'' \<rparr>]"
    by code_simp
  from rank_digests_external_failure [OF h] h v show ?thesis
    by blast
qed

text \<open>
  C2: for every pool \<open>rank_digests\<close> returns \<open>min (pool size) 25\<close> results, whose ranks are
  \<open>1, 2, \<dots>\<close> in this order, without gap or duplicate, and whose identifiers are those of
  the shortlist, with multiplicity; the empty pool gives the empty list.
\<close>

theorem rank_digests_dense_ranks:
  "(\<exists>ranked. rank_digests self clock client loads digests = Inr ranked
      \<and> length ranked = min (length digests) 25
      \<and> map rank ranked = [1 ..< Suc (min (length digests) 25)]
      \<and> mset (map digest_id ranked) = mset (map id_str (shortlist self clock digests)))
   \<and> rank_digests self clock client loads [] = Inr []"
proof -
  let ?sl = "shortlist self clock digests"
  let ?rows = "final_rows self client loads ?sl"
  from rank_digests_shape [of self clock client loads digests] obtain ranked where
    r: "rank_digests self clock client loads digests = Inr ranked"
       "map (\<lambda>r. (digest_id r, relevance_score r, reasoning r)) ranked
          = sort_reverse (\<lambda>x. fst (snd x)) ?rows"
       "map rank ranked = [1 ..< Suc (length ranked)]"
    by blast
  have "length (map (\<lambda>r. (digest_id r, relevance_score r, reasoning r)) ranked) = length ?rows"
    by (simp only: r(2) length_sort_reverse)
  also have "length ?rows = length (map fst ?rows)"
    by simp
  also have "\<dots> = length ?sl"
    by (simp only: map_fst_final_rows length_map)
  finally have len: "length ranked = min (length digests) 25"
    by (simp add: length_shortlist)
  have "map digest_id ranked = map fst (map (\<lambda>r. (digest_id r, relevance_score r, reasoning r)) ranked)"
    by simp
  also have "\<dots> = map fst (sort_reverse (\<lambda>x. fst (snd x)) ?rows)"
    by (simp only: r(2))
  finally have "mset (map digest_id ranked) = mset (map fst ?rows)"
    by (simp add: mset_sort_reverse)
  then have ids: "mset (map digest_id ranked) = mset (map id_str ?sl)"
    by (simp only: map_fst_final_rows)
  have "rank_digests self clock client loads [] = Inr []"
    by (simp add: rank_digests_def)
  with r(1,3) len ids show ?thesis
    by auto
qed

text \<open>
  C3: every relevance score of the result lies in \<open>[0, 10]\<close>, whatever the pool, the reply
  of the service and the parsed scores (NaN and the infinities included); the
  validation of the constructor never fails.
\<close>

theorem rank_digests_score_range:
  "\<exists>ranked. rank_digests self clock client loads digests = Inr ranked
     \<and> (\<forall>r \<in> set ranked. 0 \<le> relevance_score r \<and> relevance_score r \<le> 10)"
proof -
  let ?rows = "final_rows self client loads (shortlist self clock digests)"
  from rank_digests_shape [of self clock client loads digests] obtain ranked where
    r: "rank_digests self clock client loads digests = Inr ranked"
       "map (\<lambda>r. (digest_id r, relevance_score r, reasoning r)) ranked
          = sort_reverse (\<lambda>x. fst (snd x)) ?rows"
    by blast
  have "0 \<le> relevance_score a \<and> relevance_score a \<le> 10" if "a \<in> set ranked" for a
  proof -
    from that have "(digest_id a, relevance_score a, reasoning a)
        \<in> set (map (\<lambda>r. (digest_id r, relevance_score r, reasoning r)) ranked)"
      by (rule imageI [of a "set ranked" "\<lambda>r. (digest_id r, relevance_score r, reasoning r)", simplified set_map [symmetric]])
    then have "(digest_id a, relevance_score a, reasoning a) \<in> set ?rows"
      by (simp only: r(2) set_sort_reverse)
    from final_rows_range [OF this] show ?thesis
      by simp
  qed
  with r(1) show ?thesis
    by blast
qed

text \<open>The service scores one item of the example pool with NaN: the item has the score
  \<open>10\<close>, the other one its fallback score.\<close>

theorem rank_digests_score_range_witness:
  \<open>\<exists>ranked. rank_digests (init USER_PROFILE) (\<lambda>i. 43200)
       (\<lambda>s u. Inr (Some ''{"articles": [{"digest_id": "openai:1", "relevance_score": NaN}]}''))
       (map_of [(''{"articles": [{"digest_id": "openai:1", "relevance_score": NaN}]}'',
          JObj [(''articles'', JArr [JObj [(''digest_id'', JStr ''openai:1''),
                                           (''relevance_score'', JFloat NaN)]])])])
       example_pool = Inr ranked
     \<and> map relevance_score ranked = [10, 31 / 5]
     \<and> (\<forall>r \<in> set ranked. 0 \<le> relevance_score r \<and> relevance_score r \<le> 10)\<close>
proof -
  have v: \<open>rank_digests (init USER_PROFILE) (\<lambda>i. 43200)
       (\<lambda>s u. Inr (Some ''{"articles": [{"digest_id": "openai:1", "relevance_score": NaN}]}''))
       (map_of [(''{"articles": [{"digest_id": "openai:1", "relevance_score": NaN}]}'',
          JObj [(''articles'', JArr [JObj [(''digest_id'', JStr ''openai:1''),
                                           (''relevance_score'', JFloat NaN)]])])])
       example_pool
     = Inr [\<lparr> digest_id = ''openai:1'', relevance_score = 10, rank = 1,
               reasoning = ''LLM relevance score (shortlisted after heuristic pre-rank)'' \<rparr>,
            \<lparr> digest_id = ''youtube:2'', relevance_score = 31 / 5, rank = 2,
               reasoning = ''Fallback heuristic (LLM did not return score): interest=2, boost=1, recency=0.00'' \<rparr>]\<close>
    by code_simp
  from rank_digests_score_range [of "init USER_PROFILE" "\<lambda>i. 43200"
      \<open>\<lambda>s u. Inr (Some ''{"articles": [{"digest_id": "openai:1", "relevance_score": NaN}]}'')\<close>
      \<open>map_of [(''{"articles": [{"digest_id": "openai:1", "relevance_score": NaN}]}'',
          JObj [(''articles'', JArr [JObj [(''digest_id'', JStr ''openai:1''),
                                           (''relevance_score'', JFloat NaN)]])])]\<close>
      example_pool] v
  show ?thesis
    by auto
qed

text \<open>
  C4: the result is in non-increasing order of the score; the results of one score are
  the rows of that score in the order of the shortlist (the rows are built in shortlist
  order); and the \<open>i\<close>-th result has rank \<open>i\<close>.
\<close>

theorem rank_digests_sorted_stable:
  "\<exists>ranked. rank_digests self clock client loads digests = Inr ranked
     \<and> sorted_wrt (\<lambda>a b. relevance_score b \<le> relevance_score a) ranked
     \<and> (\<forall>s. filter (\<lambda>x. fst (snd x) = s) (map (\<lambda>r. (digest_id r, relevance_score r, reasoning r)) ranked)
            = filter (\<lambda>x. fst (snd x) = s)
                (final_rows self client loads (shortlist self clock digests)))
     \<and> map fst (final_rows self client loads (shortlist self clock digests))
         = map id_str (shortlist self clock digests)
     \<and> map rank ranked = [1 ..< Suc (length ranked)]"
proof -
  let ?rows = "final_rows self client loads (shortlist self clock digests)"
  let ?t = "\<lambda>r. (digest_id r, relevance_score r, reasoning r)"
  from rank_digests_shape [of self clock client loads digests] obtain ranked where
    r: "rank_digests self clock client loads digests = Inr ranked"
       "map ?t ranked = sort_reverse (\<lambda>x. fst (snd x)) ?rows"
       "map rank ranked = [1 ..< Suc (length ranked)]"
    by blast
  have "sorted_wrt (\<lambda>a b. fst (snd b) \<le> fst (snd a)) (map ?t ranked)"
    by (simp only: r(2) sorted_sort_reverse)
  then have sorted: "sorted_wrt (\<lambda>a b. relevance_score b \<le> relevance_score a) ranked"
    by (simp add: sorted_wrt_map)
  have stable: "filter (\<lambda>x. fst (snd x) = s) (map ?t ranked) = filter (\<lambda>x. fst (snd x) = s) ?rows" for s
    by (simp only: r(2) sort_reverse_stable)
  from r(1,3) sorted stable map_fst_final_rows show ?thesis
    by blast
qed

text \<open>
  C5: when the external call succeeds with a score map, a shortlisted item whose identifier
  is in the map has the external score clamped to \<open>[0, 10]\<close> and the rationale of the
  external score; an item whose identifier is missing has the fallback score of its
  heuristic score and the rationale of the missing score, not that of the failure branch.
  The clamped score is the value of \<^verbatim>\<open>max(0.0, min(10.0, x))\<close> in Python, which for a finite
  \<open>x\<close> is \<open>max 0 (min 10 x)\<close>.
\<close>

theorem rank_digests_partial_scores:
  assumes "llm_score self client loads (shortlist self clock digests) = Inr llm_scores"
  shows "\<exists>ranked. rank_digests self clock client loads digests = Inr ranked
           \<and> mset (map (\<lambda>r. (digest_id r, relevance_score r, reasoning r)) ranked)
               = mset (map (\<lambda>d. case llm_scores (id_str d) of
                                   Some x \<Rightarrow> (id_str d, llm_clamp x,
                                     ''LLM relevance score (shortlisted after heuristic pre-rank)'')
                                 | None \<Rightarrow> (id_str d, max 0 (min 10 (3 + min 7 (heur_score d))),
                                     ''Fallback heuristic (LLM did not return score): '' @ heur_why d))
                        (shortlist self clock digests))
           \<and> (\<forall>x. clamp_py x = Finite (llm_clamp x))
           \<and> (\<forall>v. llm_clamp (Finite v) = max 0 (min 10 v))"
proof -
  let ?sl = "shortlist self clock digests"
  from rank_digests_shape [of self clock client loads digests] obtain ranked where
    r: "rank_digests self clock client loads digests = Inr ranked"
       "map (\<lambda>r. (digest_id r, relevance_score r, reasoning r)) ranked
          = sort_reverse (\<lambda>x. fst (snd x)) (final_rows self client loads ?sl)"
    by blast
  have rows: "final_rows self client loads ?sl = map (merged_row llm_scores) ?sl"
    using assms by (simp add: final_rows_def)
  have "mset (map (\<lambda>r. (digest_id r, relevance_score r, reasoning r)) ranked)
          = mset (map (merged_row llm_scores) ?sl)"
    by (simp add: r(2) rows mset_sort_reverse)
  also have "merged_row llm_scores = (\<lambda>d. case llm_scores (id_str d) of
                                   Some x \<Rightarrow> (id_str d, llm_clamp x,
                                     ''LLM relevance score (shortlisted after heuristic pre-rank)'')
                                 | None \<Rightarrow> (id_str d, max 0 (min 10 (3 + min 7 (heur_score d))),
                                     ''Fallback heuristic (LLM did not return score): '' @ heur_why d))"
    by (rule ext) (simp add: merged_row_def Let_def)
  finally show ?thesis
    using r(1) clamp_py_eq by (auto simp: llm_clamp_def)
qed

text \<open>The example reply scores one of the two items of the example pool.\<close>

theorem rank_digests_partial_scores_witness:
  "llm_score (init USER_PROFILE) (\<lambda>s u. Inr (Some example_reply)) example_loads
      (shortlist (init USER_PROFILE) (\<lambda>i. 43200) example_pool) = Inr [''youtube:2'' \<mapsto> Finite 12.5]
   \<and> rank_digests (init USER_PROFILE) (\<lambda>i. 43200) (\<lambda>s u. Inr (Some example_reply))
        example_loads example_pool
      = Inr [\<lparr> digest_id = ''youtube:2'', relevance_score = 10, rank = 1,
               reasoning = ''LLM relevance score (shortlisted after heuristic pre-rank)'' \<rparr>,
             \<lparr> digest_id = ''openai:1'', relevance_score = 113 / 20, rank = 2,
               reasoning = ''Fallback heuristic (LLM did not return score): interest=2, boost=2, recency=0.75'' \<rparr>]
   \<and> (\<exists>ranked. rank_digests (init USER_PROFILE) (\<lambda>i. 43200) (\<lambda>s u. Inr (Some example_reply))
          example_loads example_pool = Inr ranked)"
proof -
  have h: "llm_score (init USER_PROFILE) (\<lambda>s u. Inr (Some example_reply)) example_loads
      (shortlist (init USER_PROFILE) (\<lambda>i. 43200) example_pool) = Inr [''youtube:2'' \<mapsto> Finite 12.5]"
    by (simp add: llm_score_def example_reply_scores)
  have v: "rank_digests (init USER_PROFILE) (\<lambda>i. 43200) (\<lambda>s u. Inr (Some example_reply))
        example_loads example_pool
      = Inr [\<lparr> digest_id = ''youtube:2'', relevance_score = 10, rank = 1,
               reasoning = ''LLM relevance score (shortlisted after heuristic pre-rank)'' \<rparr>,
             \<lparr> digest_id = ''openai:1'', relevance_score = 113 / 20, rank = 2,
               reasoning = ''Fallback heuristic (LLM did not return score): interest=2, boost=2, recency=0.75'' \<rparr>]"
    by code_simp
  from rank_digests_partial_scores [OF h] h v show ?thesis
    by blast
qed

subsection \<open>Parsing the reply\<close>

lemma find_char_first:
  assumes "c \<in> set s"
  shows "0 \<le> find_char c s \<and> nat (find_char c s) < length s \<and> s ! nat (find_char c s) = c
         \<and> (\<forall>i. s ! i = c \<and> i < length s \<longrightarrow> nat (find_char c s) \<le> i)"
proof -
  let ?P = "\<lambda>x. x \<noteq> c"
  let ?k = "length (takeWhile ?P s)"
  have "takeWhile ?P s \<noteq> s"
    using assms by (simp add: takeWhile_eq_all_conv)
  moreover have "takeWhile ?P s = take ?k s"
    by (rule takeWhile_eq_take)
  ultimately have "?k \<noteq> length s"
    by auto
  moreover have "?k \<le> length s"
    by (rule length_takeWhile_le)
  ultimately have k: "?k < length s"
    by simp
  then have "\<not> ?P (s ! ?k)"
    by (rule nth_length_takeWhile)
  then have at: "s ! ?k = c"
    by simp
  have first: "?k \<le> i" if "s ! i = c" "i < length s" for i
  proof (rule ccontr)
    assume "\<not> ?k \<le> i"
    then have lt: "i < ?k" by simp
    then have "takeWhile ?P s ! i \<in> set (takeWhile ?P s)"
      by (rule nth_mem)
    then have "?P (takeWhile ?P s ! i)"
      by (rule set_takeWhileD [THEN conjunct2])
    moreover from lt have "takeWhile ?P s ! i = s ! i"
      by (rule takeWhile_nth)
    ultimately show False
      using that(1) by simp
  qed
  have f: "find_char c s = int ?k"
    using assms by (simp add: find_char_def)
  show ?thesis
    unfolding f using k at first by simp
qed

lemma rfind_char_last:
  assumes "c \<in> set s"
  shows "0 \<le> rfind_char c s \<and> nat (rfind_char c s) < length s \<and> s ! nat (rfind_char c s) = c
         \<and> (\<forall>i. s ! i = c \<and> i < length s \<longrightarrow> i \<le> nat (rfind_char c s))"
proof -
  let ?k = "length (takeWhile (\<lambda>x. x \<noteq> c) (rev s))"
  from assms have in_rev: "c \<in> set (rev s)" by simp
  then have fk: "find_char c (rev s) = int ?k"
    by (simp add: find_char_def)
  from find_char_first [OF in_rev] have
    f: "?k < length s" "rev s ! ?k = c"
       "\<And>i. rev s ! i = c \<Longrightarrow> i < length s \<Longrightarrow> ?k \<le> i"
    unfolding fk by simp_all
  have r: "rfind_char c s = int (length s - Suc ?k)"
    using assms f(1) by (simp add: rfind_char_def)
  have at: "s ! (length s - Suc ?k) = c"
    using f(1,2) by (simp add: rev_nth)
  have last: "i \<le> length s - Suc ?k" if "s ! i = c" "i < length s" for i
  proof -
    from that have "rev s ! (length s - Suc i) = c"
      by (simp add: rev_nth)
    moreover from that(2) have "length s - Suc i < length s"
      by simp
    ultimately have "?k \<le> length s - Suc i"
      by (rule f(3))
    with that(2) show ?thesis by simp
  qed
  have nonneg: "0 \<le> rfind_char c s"
    unfolding r by (rule of_nat_0_le_iff)
  have n: "nat (rfind_char c s) = length s - Suc ?k"
    unfolding r by (rule nat_int)
  from f(1) have "length s - Suc ?k < length s"
    by simp
  with nonneg at last show ?thesis
    unfolding n by blast
qed

lemma extract_json_fails:
  "(extract_json t = Inl ValueError)
    = (\<not> (\<exists>i j. i < j \<and> j < length (unfence (strip (or_empty t)))
              \<and> unfence (strip (or_empty t)) ! i = CHR ''{''
              \<and> unfence (strip (or_empty t)) ! j = CHR ''}''))"
proof -
  define T where "T = unfence (strip (or_empty t))"
  define a where "a = find_char CHR ''{'' T"
  define b where "b = rfind_char CHR ''}'' T"
  have fails: "(extract_json t = Inl ValueError) = (a = - 1 \<or> b = - 1 \<or> b \<le> a)"
    by (simp add: extract_json_def Let_def T_def a_def b_def)
  have "(a = - 1 \<or> b = - 1 \<or> b \<le> a)
      = (\<not> (\<exists>i j. i < j \<and> j < length T \<and> T ! i = CHR ''{'' \<and> T ! j = CHR ''}''))"
  proof (cases "CHR ''{'' \<in> set T \<and> CHR ''}'' \<in> set T")
    case False
    then have "a = - 1 \<or> b = - 1"
      by (auto simp: find_char_def rfind_char_def a_def b_def)
    moreover have "\<not> (\<exists>i j. i < j \<and> j < length T \<and> T ! i = CHR ''{'' \<and> T ! j = CHR ''}'')"
    proof
      assume "\<exists>i j. i < j \<and> j < length T \<and> T ! i = CHR ''{'' \<and> T ! j = CHR ''}''"
      then obtain i j where ij: "i < j" "j < length T" "T ! i = CHR ''{''" "T ! j = CHR ''}''"
        by blast
      from ij(1,2) have "i < length T" by simp
      then have "T ! i \<in> set T" by (rule nth_mem)
      moreover from ij(2) have "T ! j \<in> set T" by (rule nth_mem)
      ultimately show False
        using False ij(3,4) by simp
    qed
    ultimately show ?thesis
      by blast
  next
    case True
    from True find_char_first [of "CHR ''{''" T] have
      a: "0 \<le> a" "nat a < length T" "T ! nat a = CHR ''{''"
         "\<And>i. T ! i = CHR ''{'' \<Longrightarrow> i < length T \<Longrightarrow> nat a \<le> i"
      unfolding a_def by simp_all
    from True rfind_char_last [of "CHR ''}''" T] have
      b: "0 \<le> b" "nat b < length T" "T ! nat b = CHR ''}''"
         "\<And>i. T ! i = CHR ''}'' \<Longrightarrow> i < length T \<Longrightarrow> i \<le> nat b"
      unfolding b_def by simp_all
    have "(b \<le> a) = (\<not> (\<exists>i j. i < j \<and> j < length T \<and> T ! i = CHR ''{'' \<and> T ! j = CHR ''}''))"
    proof
      assume le: "b \<le> a"
      show "\<not> (\<exists>i j. i < j \<and> j < length T \<and> T ! i = CHR ''{'' \<and> T ! j = CHR ''}'')"
      proof
        assume "\<exists>i j. i < j \<and> j < length T \<and> T ! i = CHR ''{'' \<and> T ! j = CHR ''}''"
        then obtain i j where ij: "i < j" "j < length T" "T ! i = CHR ''{''" "T ! j = CHR ''}''"
          by blast
        from ij(1,2) have "i < length T" by simp
        with ij(3) have "nat a \<le> i" by (rule a(4))
        moreover from ij(4,2) have "j \<le> nat b" by (rule b(4))
        ultimately show False
          using le ij(1) a(1) b(1) by linarith
      qed
    next
      assume no: "\<not> (\<exists>i j. i < j \<and> j < length T \<and> T ! i = CHR ''{'' \<and> T ! j = CHR ''}'')"
      show "b \<le> a"
      proof (rule ccontr)
        assume "\<not> b \<le> a"
        with a(1) b(1) have "nat a < nat b" by linarith
        with b(2,3) a(3) no show False by blast
      qed
    qed
    with a(1) b(1) show ?thesis
      by simp
  qed
  with fails show ?thesis
    by (simp add: T_def)
qed

text \<open>
  C6, as amended: parsing the reply signals an error when the text holds no \<open>{\<close> before
  a later \<open>}\<close> (and \<open>_extract_json\<close> fails in exactly that case), and when the span between
  the first \<open>{\<close> and the last \<open>}\<close> is not valid JSON; when the parsed object has no
  \<open>articles\<close> key, it signals nothing and returns the empty score map.
\<close>

theorem parse_reply_errors:
  "(extract_json (Some (strip (or_empty content))) = Inl ValueError
      \<longrightarrow> parse_reply loads content = Inl ValueError)
   \<and> (extract_json (Some (strip (or_empty content))) = Inr json_text \<and> loads json_text = None
      \<longrightarrow> parse_reply loads content = Inl JSONDecodeError)
   \<and> (extract_json (Some (strip (or_empty content))) = Inr json_text
        \<and> loads json_text = Some (JObj kvs) \<and> map_of kvs ''articles'' = None
      \<longrightarrow> parse_reply loads content = Inr Map.empty)
   \<and> ((extract_json t = Inl ValueError)
        = (\<not> (\<exists>i j. i < j \<and> j < length (unfence (strip (or_empty t)))
              \<and> unfence (strip (or_empty t)) ! i = CHR ''{''
              \<and> unfence (strip (or_empty t)) ! j = CHR ''}'')))"
proof -
  have 1: "extract_json (Some (strip (or_empty content))) = Inl ValueError
      \<longrightarrow> parse_reply loads content = Inl ValueError"
    by (simp add: parse_reply_def)
  have 2: "extract_json (Some (strip (or_empty content))) = Inr json_text \<and> loads json_text = None
      \<longrightarrow> parse_reply loads content = Inl JSONDecodeError"
    by (simp add: parse_reply_def)
  have 3: "extract_json (Some (strip (or_empty content))) = Inr json_text
        \<and> loads json_text = Some (JObj kvs) \<and> map_of kvs ''articles'' = None
      \<longrightarrow> parse_reply loads content = Inr Map.empty"
    by (simp add: parse_reply_def)
  from 1 2 3 extract_json_fails [of t] show ?thesis
    by blast
qed

text \<open>A reply with no brace, one whose span is not JSON, and a fenced empty object.\<close>

theorem parse_reply_errors_witness:
  "parse_reply (map_of []) (Some ''no json here'') = Inl ValueError
   \<and> parse_reply (map_of []) (Some ''{oops}'') = Inl JSONDecodeError
   \<and> parse_reply (map_of [(''{}'', JObj [])]) (Some ''```json\<newline>{}\<newline>```'') = Inr Map.empty"
proof -
  have h1: "extract_json (Some (strip (or_empty (Some ''no json here'')))) = Inl ValueError"
    by code_simp
  have h2: "extract_json (Some (strip (or_empty (Some ''{oops}'')))) = Inr ''{oops}''"
    by code_simp
  have h3: "extract_json (Some (strip (or_empty (Some ''```json\<newline>{}\<newline>```'')))) = Inr ''{}''"
    by code_simp
  from h1 parse_reply_errors [where content = "Some ''no json here''" and loads = "map_of []"]
  have 1: "parse_reply (map_of []) (Some ''no json here'') = Inl ValueError"
    by blast
  from h2 parse_reply_errors [where content = "Some ''{oops}''" and loads = "map_of []"
      and json_text = "''{oops}''"]
  have 2: "parse_reply (map_of []) (Some ''{oops}'') = Inl JSONDecodeError"
    by simp
  from h3 parse_reply_errors [where content = "Some ''```json\<newline>{}\<newline>```''"
      and loads = "map_of [(''{}'', JObj [])]" and json_text = "''{}''" and kvs = "[]"]
  have 3: "parse_reply (map_of [(''{}'', JObj [])]) (Some ''```json\<newline>{}\<newline>```'') = Inr Map.empty"
    by simp
  from 1 2 3 show ?thesis by blast
qed

text \<open>
  C6, as stated, fails: on the reply \<open>{}\<close>, whose parsed object has no \<open>articles\<close> key,
  parsing returns the empty score map and no error, and the coordinator takes the success
  branch, where every item is one the service did not score.
\<close>

theorem parse_reply_absent_articles_counterexample:
  "parse_reply (map_of [(''{}'', JObj [])]) (Some ''{}'') = Inr Map.empty
   \<and> rank_digests (init USER_PROFILE) (\<lambda>i. 43200) (\<lambda>s u. Inr (Some ''{}''))
        (map_of [(''{}'', JObj [])]) example_pool
      = Inr [\<lparr> digest_id = ''youtube:2'', relevance_score = 31 / 5, rank = 1,
               reasoning = ''Fallback heuristic (LLM did not return score): interest=2, boost=1, recency=0.00'' \<rparr>,
             \<lparr> digest_id = ''openai:1'', relevance_score = 113 / 20, rank = 2,
               reasoning = ''Fallback heuristic (LLM did not return score): interest=2, boost=2, recency=0.75'' \<rparr>]"
proof -
  have "extract_json (Some (strip (or_empty (Some ''{}'')))) = Inr ''{}''"
    by code_simp
  then have 1: "parse_reply (map_of [(''{}'', JObj [])]) (Some ''{}'') = Inr Map.empty"
    by (simp add: parse_reply_def)
  have 2: "rank_digests (init USER_PROFILE) (\<lambda>i. 43200) (\<lambda>s u. Inr (Some ''{}''))
        (map_of [(''{}'', JObj [])]) example_pool
      = Inr [\<lparr> digest_id = ''youtube:2'', relevance_score = 31 / 5, rank = 1,
               reasoning = ''Fallback heuristic (LLM did not return score): interest=2, boost=1, recency=0.00'' \<rparr>,
             \<lparr> digest_id = ''openai:1'', relevance_score = 113 / 20, rank = 2,
               reasoning = ''Fallback heuristic (LLM did not return score): interest=2, boost=2, recency=0.75'' \<rparr>]"
    by code_simp
  from 1 2 show ?thesis by blast
qed

subsection \<open>The request\<close>

lemma length_join:
  "length (join sep xs) = sum_list (map length xs) + length sep * (length xs - 1)"
  by (induction sep xs rule: join.induct) simp_all

lemma length_digest_block:
  "length (digest_block d)
     = 29 + length (id_str d) + length (py_str (title d)) + length (py_str (summary d))
       + length (article_type d)"
  by (simp add: digest_block_def)

text \<open>
  C7, as amended: the request carries every per-item block in full.  The block of an
  item is 29 characters longer than its identifier, title, summary and type together,
  the list of blocks is the blocks and two characters per separator, and the user
  message is that list with 55 characters and the decimal size of the shortlist.
\<close>

theorem request_not_truncated:
  "length (digest_block d)
     = 29 + length (id_str d) + length (py_str (title d)) + length (py_str (summary d))
       + length (article_type d)
   \<and> length (digest_list shortlisted)
     = sum_list (map (\<lambda>d. length (digest_block d)) shortlisted) + 2 * (length shortlisted - 1)
   \<and> length (user_prompt shortlisted)
     = 55 + length (show_nat (length shortlisted)) + length (digest_list shortlisted)"
  by (simp add: length_digest_block digest_list_def length_join user_prompt_def comp_def)

text \<open>
  C7, as stated, fails: no constant bounds the length of a per-item block, and no constant
  per item (plus a fixed overhead) bounds the length of the user message; an item with a
  summary of 100000 characters has a block of 100034 characters.
\<close>

theorem request_unbounded_counterexample:
  "\<not> (\<exists>c. \<forall>d. length (digest_block d) \<le> c)
   \<and> \<not> (\<exists>c c0. \<forall>shortlisted. length (user_prompt shortlisted) \<le> c0 + length shortlisted * c)
   \<and> length (digest_block \<lparr> id_str = ''a:1'', title = Some ''T'',
         summary = Some (replicate 100000 CHR ''x''), article_type = ''a'', created_at = None,
         heur_score = 0, heur_why = [] \<rparr>) = 100034"
proof -
  let ?d = "\<lambda>n. \<lparr> id_str = [], title = None, summary = Some (replicate n CHR ''x''),
                  article_type = [], created_at = None, heur_score = 0, heur_why = [] \<rparr>"
  have big: "n < length (digest_block (?d n))" for n
    by (simp add: length_digest_block py_str_def)
  have a: "\<not> (\<exists>c. \<forall>d. length (digest_block d) \<le> c)"
  proof
    assume "\<exists>c. \<forall>d. length (digest_block d) \<le> c"
    then obtain c where "\<forall>d. length (digest_block d) \<le> c" ..
    then have "length (digest_block (?d c)) \<le> c" ..
    with big [of c] show False by simp
  qed
  have b: "\<not> (\<exists>c c0. \<forall>shortlisted. length (user_prompt shortlisted) \<le> c0 + length shortlisted * c)"
  proof
    assume "\<exists>c c0. \<forall>shortlisted. length (user_prompt shortlisted) \<le> c0 + length shortlisted * c"
    then obtain c c0 where "\<forall>shortlisted. length (user_prompt shortlisted) \<le> c0 + length shortlisted * c"
      by blast
    then have "length (user_prompt [?d (c0 + c)]) \<le> c0 + length [?d (c0 + c)] * c" ..
    moreover have "c0 + c < length (user_prompt [?d (c0 + c)])"
      using big [of "c0 + c"] by (simp add: user_prompt_def digest_list_def)
    ultimately show False by simp
  qed
  have c: "length (digest_block \<lparr> id_str = ''a:1'', title = Some ''T'',
         summary = Some (replicate 100000 CHR ''x''), article_type = ''a'', created_at = None,
         heur_score = 0, heur_why = [] \<rparr>) = 100034"
    by (simp add: length_digest_block py_str_def)
  from a b c show ?thesis by blast
qed

subsection \<open>The heuristic score and the current time\<close>

text \<open>
  C9, as amended: the score and the rationale depend on the current time through the
  recency bonus alone: two evaluations with equal recency agree, and an item with no
  usable creation timestamp has the same recency at every time.
\<close>

theorem heuristic_score_time:
  "(recency now1 d = recency now2 d \<longrightarrow> heuristic_score self now1 d = heuristic_score self now2 d)
   \<and> (created_at d = None \<longrightarrow> recency now1 d = recency now2 d)"
  by (simp add: heuristic_score_def recency_def)

text \<open>An item with no creation timestamp, scored twelve hours apart.\<close>

theorem heuristic_score_time_witness:
  "created_at \<lparr> id_str = ''a:1'', title = Some ''Production deployment'', summary = None,
        article_type = ''a'', created_at = None \<rparr> = None
   \<and> recency 0 \<lparr> id_str = ''a:1'', title = Some ''Production deployment'', summary = None,
        article_type = ''a'', created_at = None \<rparr>
     = recency 43200 \<lparr> id_str = ''a:1'', title = Some ''Production deployment'', summary = None,
        article_type = ''a'', created_at = None \<rparr>
   \<and> heuristic_score (init USER_PROFILE) 0
        \<lparr> id_str = ''a:1'', title = Some ''Production deployment'', summary = None,
          article_type = ''a'', created_at = None \<rparr>
     = heuristic_score (init USER_PROFILE) 43200
        \<lparr> id_str = ''a:1'', title = Some ''Production deployment'', summary = None,
          article_type = ''a'', created_at = None \<rparr>"
proof -
  have h: "created_at \<lparr> id_str = ''a:1'', title = Some ''Production deployment'', summary = None,
        article_type = ''a'', created_at = None \<rparr> = None"
    by simp
  from heuristic_score_time [of 0 "\<lparr> id_str = ''a:1'', title = Some ''Production deployment'',
      summary = None, article_type = ''a'', created_at = None \<rparr>" 43200 "init USER_PROFILE"] h
  show ?thesis
    by blast
qed

text \<open>
  C9, as stated, fails: the same item and the same profile give the pair
  \<open>(1.5, \<dots>recency=1.50)\<close> when scored at the creation time and
  \<open>(0.75, \<dots>recency=0.75)\<close> twelve hours later.
\<close>

theorem heuristic_score_time_counterexample:
  "heuristic_score (init USER_PROFILE) 0
      \<lparr> id_str = ''a:1'', title = None, summary = None, article_type = ''a'', created_at = Some 0 \<rparr>
    = (3 / 2, ''interest=0, boost=0, recency=1.50'')
   \<and> heuristic_score (init USER_PROFILE) 43200
      \<lparr> id_str = ''a:1'', title = None, summary = None, article_type = ''a'', created_at = Some 0 \<rparr>
    = (3 / 4, ''interest=0, boost=0, recency=0.75'')
   \<and> heuristic_score (init USER_PROFILE) 0
      \<lparr> id_str = ''a:1'', title = None, summary = None, article_type = ''a'', created_at = Some 0 \<rparr>
    \<noteq> heuristic_score (init USER_PROFILE) 43200
      \<lparr> id_str = ''a:1'', title = None, summary = None, article_type = ''a'', created_at = Some 0 \<rparr>"
proof -
  have 1: "heuristic_score (init USER_PROFILE) 0
      \<lparr> id_str = ''a:1'', title = None, summary = None, article_type = ''a'', created_at = Some 0 \<rparr>
    = (3 / 2, ''interest=0, boost=0, recency=1.50'')"
    by code_simp
  have 2: "heuristic_score (init USER_PROFILE) 43200
      \<lparr> id_str = ''a:1'', title = None, summary = None, article_type = ''a'', created_at = Some 0 \<rparr>
    = (3 / 4, ''interest=0, boost=0, recency=0.75'')"
    by code_simp
  show ?thesis
    unfolding 1 2 by simp
qed

subsection \<open>The rationale of the heuristic\<close>

lemma digit_cases: "k < 10 \<Longrightarrow> k \<in> {0, 1, 2, 3, 4, 5, 6, 7, 8, 9::nat}"
  by auto

lemma digit_val_digit_char: "digit_val (digit_char n) = n mod 10"
proof -
  have "n mod 10 < 10" by simp
  then have "n mod 10 \<in> {0, 1, 2, 3, 4, 5, 6, 7, 8, 9::nat}"
    by (rule digit_cases)
  then show ?thesis
    by (auto simp: digit_char_def digit_val_def)
qed

lemma is_digit_digit_char: "is_digit (digit_char n)"
proof -
  have "n mod 10 < length ''0123456789''" by simp
  then show ?thesis
    unfolding is_digit_def digit_char_def by (rule nth_mem)
qed

lemma show_nat_digits: "c \<in> set (show_nat n) \<Longrightarrow> is_digit c"
proof (induction n rule: show_nat.induct)
  case (1 n)
  then show ?case
    by (cases "n < 10") (auto simp: show_nat.simps [of n] is_digit_digit_char)
qed

lemma read_show_nat: "read_nat (show_nat n) = n"
proof (induction n rule: show_nat.induct)
  case (1 n)
  show ?case
  proof (cases "n < 10")
    case True
    then show ?thesis
      by (simp add: show_nat.simps [of n] read_nat_def digit_val_digit_char)
  next
    case False
    with 1 have "read_nat (show_nat (n div 10)) = n div 10"
      by simp
    with False show ?thesis
      by (simp add: show_nat.simps [of n] read_nat_def digit_val_digit_char)
  qed
qed

lemma show_nat_inj: "show_nat n = show_nat m \<Longrightarrow> n = m"
  by (metis read_show_nat)

lemma numeral_then_comma:
  assumes "show_nat n @ CHR '','' # r = show_nat m @ CHR '','' # r'"
  shows "n = m \<and> r = r'"
proof -
  have nd: "\<not> is_digit CHR '',''"
    by (simp add: is_digit_def)
  have tw: "takeWhile is_digit (show_nat k @ CHR '','' # t) = show_nat k" for k t
    using nd show_nat_digits by (simp add: takeWhile_tail)
  from assms have "takeWhile is_digit (show_nat n @ CHR '','' # r)
      = takeWhile is_digit (show_nat m @ CHR '','' # r')"
    by simp
  then have "show_nat n = show_nat m"
    by (simp only: tw)
  with assms show ?thesis
    by (simp add: show_nat_inj)
qed

text \<open>
  C8, as amended: the rationale records the interest count, the boost count and the
  recency to two decimals: two rationales that are equal come from equal counts and
  equally rendered recencies.
\<close>

theorem rationale_records:
  assumes "snd (heuristic_score self now d) = snd (heuristic_score self' now' d')"
  shows "interest_hits self d = interest_hits self' d'
         \<and> boost_hits self d = boost_hits self' d'
         \<and> format_2f (recency now d) = format_2f (recency now' d')"
proof -
  from assms have
    "show_nat (interest_hits self d) @ CHR '','' # ('' boost='' @ show_nat (boost_hits self d)
        @ '', recency='' @ format_2f (recency now d))
     = show_nat (interest_hits self' d') @ CHR '','' # ('' boost='' @ show_nat (boost_hits self' d')
        @ '', recency='' @ format_2f (recency now' d'))"
    by (simp add: heuristic_score_def)
  from numeral_then_comma [OF this] have i: "interest_hits self d = interest_hits self' d'"
    and "show_nat (boost_hits self d) @ CHR '','' # ('' recency='' @ format_2f (recency now d))
     = show_nat (boost_hits self' d') @ CHR '','' # ('' recency='' @ format_2f (recency now' d'))"
    by simp_all
  from numeral_then_comma [OF this(2)] i show ?thesis
    by simp
qed

text \<open>Two items with the counts 2 and 2, one of them with two hits in the down set.\<close>

theorem rationale_records_witness:
  "snd (heuristic_score (init USER_PROFILE) 0
      \<lparr> id_str = ''a:1'', title = Some ''Production deployment'', summary = None,
        article_type = ''a'', created_at = None \<rparr>)
    = snd (heuristic_score (init USER_PROFILE) 43200
      \<lparr> id_str = ''a:2'', title = Some ''Deployment in production'',
        summary = Some ''Register for the webinar'', article_type = ''a'', created_at = None \<rparr>)
   \<and> interest_hits (init USER_PROFILE)
      \<lparr> id_str = ''a:1'', title = Some ''Production deployment'', summary = None,
        article_type = ''a'', created_at = None \<rparr>
     = interest_hits (init USER_PROFILE)
      \<lparr> id_str = ''a:2'', title = Some ''Deployment in production'',
        summary = Some ''Register for the webinar'', article_type = ''a'', created_at = None \<rparr>
   \<and> boost_hits (init USER_PROFILE)
      \<lparr> id_str = ''a:1'', title = Some ''Production deployment'', summary = None,
        article_type = ''a'', created_at = None \<rparr>
     = boost_hits (init USER_PROFILE)
      \<lparr> id_str = ''a:2'', title = Some ''Deployment in production'',
        summary = Some ''Register for the webinar'', article_type = ''a'', created_at = None \<rparr>"
proof -
  have h: "snd (heuristic_score (init USER_PROFILE) 0
      \<lparr> id_str = ''a:1'', title = Some ''Production deployment'', summary = None,
        article_type = ''a'', created_at = None \<rparr>)
    = snd (heuristic_score (init USER_PROFILE) 43200
      \<lparr> id_str = ''a:2'', title = Some ''Deployment in production'',
        summary = Some ''Register for the webinar'', article_type = ''a'', created_at = None \<rparr>)"
    by code_simp
  from rationale_records [OF h] h show ?thesis
    by blast
qed

text \<open>
  C8, as stated, fails: two items whose texts hit the down set once and not at all have
  the same rationale, so the rationale does not hold the down count.
\<close>

theorem rationale_down_counterexample:
  "snd (heuristic_score (init USER_PROFILE) 0
      \<lparr> id_str = ''a:1'', title = Some ''Team webinar'', summary = None, article_type = ''a'',
        created_at = None \<rparr>) = ''interest=0, boost=0, recency=0.00''
   \<and> snd (heuristic_score (init USER_PROFILE) 0
      \<lparr> id_str = ''a:2'', title = Some ''Team seminar'', summary = None, article_type = ''a'',
        created_at = None \<rparr>) = ''interest=0, boost=0, recency=0.00''
   \<and> down_hits (init USER_PROFILE)
      \<lparr> id_str = ''a:1'', title = Some ''Team webinar'', summary = None, article_type = ''a'',
        created_at = None \<rparr> = 1
   \<and> down_hits (init USER_PROFILE)
      \<lparr> id_str = ''a:2'', title = Some ''Team seminar'', summary = None, article_type = ''a'',
        created_at = None \<rparr> = 0"
  by code_simp

subsection \<open>The tokenizer on the examples\<close>

text \<open>
  C10: the tokenizer maps \<^verbatim>\<open>"GPT-4 Release Notes!!"\<close> to exactly the token set
  \<open>{release, notes}\<close>, maps \<^verbatim>\<open>"gpt-4"\<close> to the empty set, keeps \<^verbatim>\<open>"scalability"\<close>, and
  returns no token for the empty string and for \<^verbatim>\<open>None\<close>.
\<close>

theorem tokenize_examples:
  "set (tokenize (Some ''GPT-4 Release Notes!!'')) = {''release'', ''notes''}
   \<and> set (tokenize (Some ''gpt-4'')) = {}
   \<and> ''scalability'' \<in> set (tokenize (Some ''scalability''))
   \<and> set (tokenize (Some [])) = {}
   \<and> set (tokenize None) = {}"
  by (simp add: tokenize_def or_empty_def lower_def lower_char_def alnum_lower_def emit_def insert_commute)

end
